theory Spec2Isabelle
  imports Main "HOL-Library.Word"
begin

section \<open>Data model of package fcntllock\<close>

text \<open>
  The package locks a whole file with \<^verbatim>\<open>fcntl\<close>. Everything it does goes through the
  operating system (\<^verbatim>\<open>os.Stat\<close>, \<^verbatim>\<open>os.MkdirAll\<close>, \<^verbatim>\<open>os.OpenFile\<close>,
  \<^verbatim>\<open>syscall.FcntlFlock\<close>, \<^verbatim>\<open>Close\<close>) and through the caller's
  \<^verbatim>\<open>context.Context\<close>. None of these is code of the package, so each is a parameter of
  the model: a function of an abstract world \<open>'w\<close> that returns its result and the next
  world. The package's own functions are translated line by line on top of them and
  record every external call, and every entry into \<^verbatim>\<open>createLockDir\<close>,
  \<^verbatim>\<open>TryLock\<close> and \<^verbatim>\<open>lock\<close>, in a trace.
\<close>

type_synonym uintptr = "64 word"

text \<open>An open \<^verbatim>\<open>*os.File\<close>; \<^verbatim>\<open>file.Fd()\<close> reads its descriptor.\<close>

datatype os_File = File (Fd: uintptr)

text \<open>Errors of the operating system: \<^verbatim>\<open>*os.PathError\<close> (operation, path, errno) and a bare
  \<^verbatim>\<open>syscall.Errno\<close>.\<close>

datatype os_error = PathError string string nat | Errno nat

text \<open>The two errors a \<^verbatim>\<open>context.Context\<close> reports once it is done.\<close>

datatype ctx_error = Canceled | DeadlineExceeded

text \<open>A Go \<^verbatim>\<open>error\<close> value of this package; \<^verbatim>\<open>nil\<close> is \<open>None\<close> of \<open>error option\<close>.\<close>

datatype error = OSError os_error | ErrorsNew string | ContextError ctx_error

datatype fcntl_cmd = F_SETLK | F_SETLKW

datatype lock_type = F_RDLCK | F_WRLCK | F_UNLCK

datatype open_flag = O_CREATE | O_RDWR | O_SYNC

record Flock_t =
  Start :: "64 word"
  Len :: "64 word"
  Pid :: "32 word"
  Type :: lock_type
  Whence :: "16 word"

text \<open>\<^verbatim>\<open>Lock struct { path string; ReadWriteSeekCloser; fd uintptr }\<close>: the embedded
  interface is \<^verbatim>\<open>nil\<close> or the file opened by \<^verbatim>\<open>lock\<close>.\<close>

record Lock =
  path :: string
  resource :: "os_File option"
  fd :: uintptr

datatype event =
    Call_createLockDir string
  | Call_TryLock
  | Call_lock bool
  | Sys_Stat string
  | Sys_MkdirAll string "32 word"
  | Sys_OpenFile string "open_flag list" "32 word" "os_File option"
  | Sys_FcntlFlock uintptr fcntl_cmd Flock_t bool
  | Sys_Close os_File
  | Ctx_Err "ctx_error option"
  | Select_wait int bool

text \<open>The external operations. \<open>os_Stat\<close> answers \<open>Inr b\<close> with \<open>b\<close> the value of
  \<^verbatim>\<open>info.IsDir()\<close>.\<close>

record 'w sys =
  filepath_Dir :: "string \<Rightarrow> string"
  os_Stat :: "string \<Rightarrow> 'w \<Rightarrow> (os_error + bool) \<times> 'w"
  os_IsNotExist :: "os_error \<Rightarrow> bool"
  os_MkdirAll :: "string \<Rightarrow> 32 word \<Rightarrow> 'w \<Rightarrow> os_error option \<times> 'w"
  os_OpenFile :: "string \<Rightarrow> open_flag list \<Rightarrow> 32 word \<Rightarrow> 'w \<Rightarrow> (os_error + os_File) \<times> 'w"
  os_Getpid :: "'w \<Rightarrow> int"
  syscall_FcntlFlock :: "uintptr \<Rightarrow> fcntl_cmd \<Rightarrow> Flock_t \<Rightarrow> 'w \<Rightarrow> os_error option \<times> 'w"
  file_Close :: "os_File \<Rightarrow> 'w \<Rightarrow> os_error option \<times> 'w"

text \<open>The caller's context: \<open>Err\<close> is \<^verbatim>\<open>ctx.Err()\<close>; \<open>Done_or_After d\<close> is the
  \<^verbatim>\<open>select\<close> between \<^verbatim>\<open>ctx.Done()\<close> and \<^verbatim>\<open>time.After(d)\<close>, \<open>True\<close> when the
  \<^verbatim>\<open>ctx.Done()\<close> case is taken.\<close>

record 'w Context =
  Err :: "'w \<Rightarrow> ctx_error option"
  Done_or_After :: "int \<Rightarrow> 'w \<Rightarrow> bool \<times> 'w"

record 'w state =
  lck :: Lock
  world :: 'w
  trace :: "event list"

section \<open>External calls, recorded\<close>

definition emit :: "event \<Rightarrow> 'w state \<Rightarrow> 'w state" where
  "emit e s = s\<lparr>trace := trace s @ [e]\<rparr>"

definition do_Stat :: "'w sys \<Rightarrow> string \<Rightarrow> 'w state \<Rightarrow> (os_error + bool) \<times> 'w state" where
  "do_Stat sys dir s =
     (case os_Stat sys dir (world s) of
        (r, w) \<Rightarrow> (r, emit (Sys_Stat dir) (s\<lparr>world := w\<rparr>)))"

definition do_MkdirAll :: "'w sys \<Rightarrow> string \<Rightarrow> 32 word \<Rightarrow> 'w state \<Rightarrow> os_error option \<times> 'w state" where
  "do_MkdirAll sys dir perm s =
     (case os_MkdirAll sys dir perm (world s) of
        (r, w) \<Rightarrow> (r, emit (Sys_MkdirAll dir perm) (s\<lparr>world := w\<rparr>)))"

definition do_OpenFile ::
  "'w sys \<Rightarrow> string \<Rightarrow> open_flag list \<Rightarrow> 32 word \<Rightarrow> 'w state \<Rightarrow> (os_error + os_File) \<times> 'w state" where
  "do_OpenFile sys p flags perm s =
     (case os_OpenFile sys p flags perm (world s) of
        (r, w) \<Rightarrow>
          (r, emit (Sys_OpenFile p flags perm (case r of Inl _ \<Rightarrow> None | Inr f \<Rightarrow> Some f))
                (s\<lparr>world := w\<rparr>)))"

definition do_FcntlFlock ::
  "'w sys \<Rightarrow> uintptr \<Rightarrow> fcntl_cmd \<Rightarrow> Flock_t \<Rightarrow> 'w state \<Rightarrow> os_error option \<times> 'w state" where
  "do_FcntlFlock sys d cmd ft s =
     (case syscall_FcntlFlock sys d cmd ft (world s) of
        (r, w) \<Rightarrow> (r, emit (Sys_FcntlFlock d cmd ft (r = None)) (s\<lparr>world := w\<rparr>)))"

definition do_Close :: "'w sys \<Rightarrow> os_File \<Rightarrow> 'w state \<Rightarrow> os_error option \<times> 'w state" where
  "do_Close sys f s =
     (case file_Close sys f (world s) of
        (r, w) \<Rightarrow> (r, emit (Sys_Close f) (s\<lparr>world := w\<rparr>)))"

section \<open>The package\<close>

definition lockDirPerm :: "32 word" where
  "lockDirPerm = 448"

definition io_SeekStart :: "16 word" where
  "io_SeekStart = 0"

text \<open>\<^verbatim>\<open>New(path)\<close>: only the path is set; the other fields have Go's zero values.\<close>

definition New :: "string \<Rightarrow> Lock" where
  "New p = \<lparr>path = p, resource = None, fd = 0\<rparr>"

definition createLockDir :: "'w sys \<Rightarrow> string \<Rightarrow> 'w state \<Rightarrow> error option \<times> 'w state" where
  "createLockDir sys p s =
     (let dir = filepath_Dir sys p in
      case do_Stat sys dir (emit (Call_createLockDir p) s) of
        (Inr isDir, s1) \<Rightarrow>
          if isDir then (None, s1)
          else (Some (ErrorsNew (''already exists and is not directory: '' @ dir)), s1)
      | (Inl err, s1) \<Rightarrow>
          if os_IsNotExist sys err then
            (case do_MkdirAll sys dir lockDirPerm s1 of
               (r, s2) \<Rightarrow> (map_option OSError r, s2))
          else (Some (OSError err), s1))"

text \<open>The two \<^verbatim>\<open>syscall.Flock_t\<close> values the package builds: the exclusive lock of the
  whole file for process \<open>pid\<close> (\<^verbatim>\<open>int32(os.Getpid())\<close>), and the unlock request.\<close>

definition wrlck_ft :: "int \<Rightarrow> Flock_t" where
  "wrlck_ft pid =
     \<lparr>Start = 0, Len = 0, Pid = word_of_int pid, Type = F_WRLCK, Whence = io_SeekStart\<rparr>"

definition unlck_ft :: Flock_t where
  "unlck_ft = \<lparr>Start = 0, Len = 0, Pid = 0, Type = F_UNLCK, Whence = io_SeekStart\<rparr>"

text \<open>The second half of \<^verbatim>\<open>lock\<close>, from the construction of the \<^verbatim>\<open>Flock_t\<close> on. Here the
  embedded interface holds the file \<open>f\<close>: the one found on entry or the one just opened.\<close>

definition lock_request :: "'w sys \<Rightarrow> bool \<Rightarrow> os_File \<Rightarrow> 'w state \<Rightarrow> error option \<times> 'w state" where
  "lock_request sys blocking f s =
     (let ft = wrlck_ft (os_Getpid sys (world s));
          cmd = (if blocking then F_SETLKW else F_SETLK)
      in case do_FcntlFlock sys (fd (lck s)) cmd ft s of
           (None, s1) \<Rightarrow> (None, s1)
         | (Some err, s1) \<Rightarrow>
             (case do_Close sys f s1 of
                (_, s2) \<Rightarrow> (Some (OSError err), s2\<lparr>lck := (lck s2)\<lparr>resource := None\<rparr>\<rparr>)))"

definition lock :: "'w sys \<Rightarrow> bool \<Rightarrow> 'w state \<Rightarrow> error option \<times> 'w state" where
  "lock sys blocking s0 =
     (let s = emit (Call_lock blocking) s0 in
      case resource (lck s) of
        None \<Rightarrow>
          (case do_OpenFile sys (path (lck s)) [O_CREATE, O_RDWR, O_SYNC] 438 s of
             (Inl err, s1) \<Rightarrow> (Some (OSError err), s1)
           | (Inr opened, s1) \<Rightarrow>
               lock_request sys blocking opened
                 (s1\<lparr>lck := (lck s1)\<lparr>fd := Fd opened, resource := Some opened\<rparr>\<rparr>))
      | Some f \<Rightarrow> lock_request sys blocking f s)"

definition TryLock :: "'w sys \<Rightarrow> 'w state \<Rightarrow> error option \<times> 'w state" where
  "TryLock sys s0 =
     (let s = emit Call_TryLock s0 in
      case createLockDir sys (path (lck s)) s of
        (Some err, s1) \<Rightarrow> (Some err, s1)
      | (None, s1) \<Rightarrow> lock sys False s1)"

text \<open>\<^verbatim>\<open>UnLock\<close> has a value receiver: it works on a copy of the \<^verbatim>\<open>Lock\<close> and assigns to
  no field.\<close>

definition UnLock :: "'w sys \<Rightarrow> 'w state \<Rightarrow> error option \<times> 'w state" where
  "UnLock sys s =
     (let ft = unlck_ft
      in case do_FcntlFlock sys (fd (lck s)) F_SETLK ft s of
           (r, s1) \<Rightarrow> (map_option OSError r, s1))"

text \<open>The \<^verbatim>\<open>select\<close> of the retry loop.\<close>

definition select_wait :: "'w Context \<Rightarrow> int \<Rightarrow> 'w state \<Rightarrow> bool \<times> 'w state" where
  "select_wait ctx retryDelay s =
     (case Done_or_After ctx retryDelay (world s) of
        (done, w) \<Rightarrow> (done, emit (Select_wait retryDelay done) (s\<lparr>world := w\<rparr>)))"

definition ctx_Err :: "'w Context \<Rightarrow> 'w state \<Rightarrow> error option \<times> 'w state" where
  "ctx_Err ctx s =
     (map_option ContextError (Err ctx (world s)), emit (Ctx_Err (Err ctx (world s))) s)"

text \<open>The \<^verbatim>\<open>for\<close> loop of \<^verbatim>\<open>try\<close>. It has no bound of its own, so the model counts
  iterations: \<open>None\<close> means that the loop is still running after \<open>n\<close> of them.\<close>

fun try_loop ::
  "'w Context \<Rightarrow> ('w state \<Rightarrow> error option \<times> 'w state) \<Rightarrow> int \<Rightarrow> nat \<Rightarrow> 'w state
     \<Rightarrow> (error option \<times> 'w state) option" where
  "try_loop ctx fn retryDelay 0 s = None"
| "try_loop ctx fn retryDelay (Suc n) s =
     (case fn s of
        (None, s1) \<Rightarrow> Some (None, s1)
      | (Some err, s1) \<Rightarrow>
          (case select_wait ctx retryDelay s1 of
             (True, s2) \<Rightarrow> Some (ctx_Err ctx s2)
           | (False, s2) \<Rightarrow> try_loop ctx fn retryDelay n s2))"

text \<open>\<^verbatim>\<open>func (lck *Lock) try(ctx, fn, retryDelay)\<close>.\<close>

definition lck_try ::
  "'w Context \<Rightarrow> ('w state \<Rightarrow> error option \<times> 'w state) \<Rightarrow> int \<Rightarrow> nat \<Rightarrow> 'w state
     \<Rightarrow> (error option \<times> 'w state) option" where
  "lck_try ctx fn retryDelay n s =
     (case ctx_Err ctx s of
        (Some err, s1) \<Rightarrow> Some (Some err, s1)
      | (None, s1) \<Rightarrow> try_loop ctx fn retryDelay n s1)"

definition LockContext ::
  "'w sys \<Rightarrow> 'w Context \<Rightarrow> int \<Rightarrow> nat \<Rightarrow> 'w state \<Rightarrow> (error option \<times> 'w state) option" where
  "LockContext sys ctx retryDelay n s =
     (case createLockDir sys (path (lck s)) s of
        (Some err, s1) \<Rightarrow> Some (Some err, s1)
      | (None, s1) \<Rightarrow> lck_try ctx (TryLock sys) retryDelay n s1)"

section \<open>Observations on a run\<close>

text \<open>The state in which iteration \<open>k\<close> of the retry loop starts (counting from 0), when
  the loop gets that far: each earlier call of \<open>fn\<close> failed and each earlier
  \<^verbatim>\<open>select\<close> took the timer.\<close>

fun iteration_start ::
  "'w Context \<Rightarrow> ('w state \<Rightarrow> error option \<times> 'w state) \<Rightarrow> int \<Rightarrow> nat \<Rightarrow> 'w state
     \<Rightarrow> 'w state option" where
  "iteration_start ctx fn retryDelay 0 s = Some s"
| "iteration_start ctx fn retryDelay (Suc k) s =
     (case fn s of
        (None, s1) \<Rightarrow> None
      | (Some err, s1) \<Rightarrow>
          (case select_wait ctx retryDelay s1 of
             (True, s2) \<Rightarrow> None
           | (False, s2) \<Rightarrow> iteration_start ctx fn retryDelay k s2))"

fun is_createLockDir_call :: "event \<Rightarrow> bool" where
  "is_createLockDir_call (Call_createLockDir p) = True"
| "is_createLockDir_call e = False"

definition calls_createLockDir :: "event list \<Rightarrow> nat" where
  "calls_createLockDir tr = length (filter is_createLockDir_call tr)"

definition calls_TryLock :: "event list \<Rightarrow> nat" where
  "calls_TryLock tr = count_list tr Call_TryLock"

text \<open>The files a trace leaves open: those a successful \<^verbatim>\<open>os.OpenFile\<close> returned and no
  later \<^verbatim>\<open>Close\<close> was called on.\<close>

fun track_open :: "os_File list \<Rightarrow> event \<Rightarrow> os_File list" where
  "track_open fs (Sys_OpenFile p flags perm (Some f)) = f # fs"
| "track_open fs (Sys_Close f) = remove1 f fs"
| "track_open fs e = fs"

definition open_files :: "event list \<Rightarrow> os_File list" where
  "open_files tr = foldl track_open [] tr"


text \<open>The events in which the caller's context is consulted: a call of \<^verbatim>\<open>ctx.Err()\<close>
  and the \<^verbatim>\<open>select\<close> on \<^verbatim>\<open>ctx.Done()\<close>.\<close>

fun is_ctx_event :: "event \<Rightarrow> bool" where
  "is_ctx_event (Ctx_Err e) = True"
| "is_ctx_event (Select_wait d b) = True"
| "is_ctx_event e = False"

definition ctx_events :: "event list \<Rightarrow> event list" where
  "ctx_events tr = filter is_ctx_event tr"

section \<open>A small operating system to run the package on\<close>

text \<open>A world of a clock and the process's table of open descriptors. Every system call
  takes one tick. \<^verbatim>\<open>os.Stat\<close> and \<^verbatim>\<open>os.OpenFile\<close> give fixed answers; a lock request
  fails with \<^verbatim>\<open>EBADF\<close> (9) on a descriptor that is not open and with \<^verbatim>\<open>EAGAIN\<close> (11) while
  another process holds the lock, that is before \<open>held_until\<close>.\<close>

record demo_world =
  now :: nat
  fds :: "uintptr list"

definition tick :: "demo_world \<Rightarrow> demo_world" where
  "tick w = w\<lparr>now := now w + 1\<rparr>"

definition demo_Dir :: "string \<Rightarrow> string" where
  "demo_Dir p = rev (tl (dropWhile (\<lambda>c. c \<noteq> CHR ''/'') (rev p)))"

definition demo_IsNotExist :: "os_error \<Rightarrow> bool" where
  "demo_IsNotExist e = (case e of PathError op p n \<Rightarrow> n = 2 | Errno n \<Rightarrow> n = 2)"

definition demo_OpenFile ::
  "(os_error + os_File) \<Rightarrow> demo_world \<Rightarrow> (os_error + os_File) \<times> demo_world" where
  "demo_OpenFile answer w =
     (case answer of
        Inl e \<Rightarrow> (Inl e, tick w)
      | Inr f \<Rightarrow> (Inr f, tick (w\<lparr>fds := Fd f # fds w\<rparr>)))"

definition demo_FcntlFlock ::
  "nat \<Rightarrow> uintptr \<Rightarrow> Flock_t \<Rightarrow> demo_world \<Rightarrow> os_error option \<times> demo_world" where
  "demo_FcntlFlock held_until d ft w =
     (if d \<notin> set (fds w) then (Some (Errno 9), tick w)
      else if Type ft \<noteq> F_UNLCK \<and> now w < held_until then (Some (Errno 11), tick w)
      else (None, tick w))"

definition demo_Close :: "os_File \<Rightarrow> demo_world \<Rightarrow> os_error option \<times> demo_world" where
  "demo_Close f w = (None, tick (w\<lparr>fds := remove1 (Fd f) (fds w)\<rparr>))"

definition demo_sys :: "(os_error + bool) \<Rightarrow> (os_error + os_File) \<Rightarrow> nat \<Rightarrow> demo_world sys" where
  "demo_sys stat_answer open_answer held_until =
     \<lparr>filepath_Dir = demo_Dir,
      os_Stat = (\<lambda>dir w. (stat_answer, tick w)),
      os_IsNotExist = demo_IsNotExist,
      os_MkdirAll = (\<lambda>dir perm w. (None, tick w)),
      os_OpenFile = (\<lambda>p flags perm. demo_OpenFile open_answer),
      os_Getpid = (\<lambda>w. 4242),
      syscall_FcntlFlock = (\<lambda>d cmd. demo_FcntlFlock held_until d),
      file_Close = demo_Close\<rparr>"

text \<open>A context with a deadline on the clock (\<open>None\<close>: \<^verbatim>\<open>context.Background()\<close>). The
  \<^verbatim>\<open>select\<close> takes \<^verbatim>\<open>ctx.Done()\<close> when the deadline comes no later than the timer.\<close>

definition demo_ctx :: "nat option \<Rightarrow> demo_world Context" where
  "demo_ctx deadline =
     \<lparr>Err = (\<lambda>w. case deadline of
                   None \<Rightarrow> None
                 | Some t \<Rightarrow> if t \<le> now w then Some DeadlineExceeded else None),
      Done_or_After = (\<lambda>d w. case deadline of
                   None \<Rightarrow> (False, w\<lparr>now := now w + nat d\<rparr>)
                 | Some t \<Rightarrow>
                     if t \<le> now w + nat d then (True, w\<lparr>now := max t (now w)\<rparr>)
                     else (False, w\<lparr>now := now w + nat d\<rparr>))\<rparr>"

text \<open>A fresh \<^verbatim>\<open>Lock\<close> in a process with the given open descriptors, at time 0.\<close>

definition demo_start :: "string \<Rightarrow> uintptr list \<Rightarrow> demo_world state" where
  "demo_start p ds = \<lparr>lck = New p, world = \<lparr>now = 0, fds = ds\<rparr>, trace = []\<rparr>"

section \<open>Facts about the recorded calls\<close>

lemma emit_simps [simp]:
  "lck (emit e s) = lck s" "world (emit e s) = world s" "trace (emit e s) = trace s @ [e]"
  by (simp_all add: emit_def)




lemma createLockDir_no_ctx_error:
  "createLockDir sys p s = (Some e, s') \<Longrightarrow> e \<noteq> ContextError c"
  by (auto simp: createLockDir_def Let_def split: prod.splits sum.splits if_splits)

lemma select_wait_trace:
  "select_wait ctx d s = (b, s') \<Longrightarrow> lck s' = lck s \<and> trace s' = trace s @ [Select_wait d b]"
  by (auto simp: select_wait_def split: prod.splits)


lemma open_files_append: "open_files (tr @ evs) = foldl track_open (open_files tr) evs"
  by (simp add: open_files_def)

lemmas lock_unfold = lock_def lock_request_def do_OpenFile_def do_FcntlFlock_def do_Close_def
  Let_def





lemma lock_error_is_OSError:
  "lock sys b s = (Some e, s') \<Longrightarrow> \<exists>oe. e = OSError oe"
  by (auto simp: lock_unfold split: prod.splits option.splits sum.splits)

text \<open>Unfolding these evaluates a run of the package on the small operating system.\<close>

lemmas demo_defs = demo_sys_def demo_ctx_def demo_start_def New_def tick_def demo_Dir_def
  demo_IsNotExist_def demo_OpenFile_def demo_FcntlFlock_def demo_Close_def

lemmas package_defs = createLockDir_def TryLock_def LockContext_def lck_try_def ctx_Err_def
  select_wait_def lock_def lock_request_def UnLock_def do_Stat_def do_MkdirAll_def
  do_OpenFile_def do_FcntlFlock_def do_Close_def emit_def Let_def wrlck_ft_def unlck_ft_def
  io_SeekStart_def lockDirPerm_def

section \<open>One attempt\<close>



text \<open>
  C9. When the resource is absent and \<^verbatim>\<open>os.OpenFile\<close> fails, \<^verbatim>\<open>lock\<close> returns that
  error and the \<^verbatim>\<open>Lock\<close> is as it was (resource absent, \<^verbatim>\<open>fd\<close> unchanged). The call
  has made one system call, the failed open: no lock request, no close.
\<close>

theorem lock_open_failure_leaves_state:
  assumes "resource (lck s) = None"
      and "os_OpenFile sys (path (lck s)) [O_CREATE, O_RDWR, O_SYNC] 438 (world s) = (Inl err, w)"
  shows "lock sys blocking s =
           (Some (OSError err),
            s\<lparr>world := w,
              trace := trace s @ [Call_lock blocking,
                Sys_OpenFile (path (lck s)) [O_CREATE, O_RDWR, O_SYNC] 438 None]\<rparr>)"
  using assms by (simp add: lock_def do_OpenFile_def emit_def)

theorem lock_open_failure_leaves_state_witness:
  "lock (demo_sys (Inr True) (Inl (PathError ''open'' ''/run/lock/app.lck'' 13)) 0) False
     (demo_start ''/run/lock/app.lck'' [0, 1, 2]) =
   (Some (OSError (PathError ''open'' ''/run/lock/app.lck'' 13)),
    \<lparr>lck = New ''/run/lock/app.lck'',
     world = \<lparr>now = 1, fds = [0, 1, 2]\<rparr>,
     trace = [Call_lock False,
              Sys_OpenFile ''/run/lock/app.lck'' [O_CREATE, O_RDWR, O_SYNC] 438 None]\<rparr>)"
proof -
  have h1: "resource (lck (demo_start ''/run/lock/app.lck'' [0, 1, 2])) = None"
    by (simp add: demo_defs)
  have h2: "os_OpenFile (demo_sys (Inr True) (Inl (PathError ''open'' ''/run/lock/app.lck'' 13)) 0)
              (path (lck (demo_start ''/run/lock/app.lck'' [0, 1, 2])))
              [O_CREATE, O_RDWR, O_SYNC] 438 (world (demo_start ''/run/lock/app.lck'' [0, 1, 2])) =
            (Inl (PathError ''open'' ''/run/lock/app.lck'' 13), \<lparr>now = 1, fds = [0, 1, 2]\<rparr>)"
    by (simp add: demo_defs)
  from lock_open_failure_leaves_state [OF h1 h2, of False] show ?thesis
    by (simp add: demo_defs)
qed



section \<open>Release\<close>

text \<open>
  C7. \<^verbatim>\<open>UnLock\<close> leaves every field of the \<^verbatim>\<open>Lock\<close> as it was, the resource among them.
  Its only external call is the unlock request, so it closes nothing: the files left open
  are the same before and after.
\<close>

theorem UnLock_keeps_resource:
  "lck (snd (UnLock sys s)) = lck s \<and>
   trace (snd (UnLock sys s)) =
     trace s @ [Sys_FcntlFlock (fd (lck s)) F_SETLK unlck_ft (fst (UnLock sys s) = None)] \<and>
   open_files (trace (snd (UnLock sys s))) = open_files (trace s)"
  by (simp add: UnLock_def do_FcntlFlock_def open_files_append split: prod.splits)

text \<open>
  C4. The claim asks \<^verbatim>\<open>UnLock\<close> to succeed on a \<^verbatim>\<open>Lock\<close> that never acquired
  anything. Here the \<^verbatim>\<open>Lock\<close> is fresh, so its \<^verbatim>\<open>fd\<close> is 0, and descriptor 0 is not
  open in the process: \<^verbatim>\<open>UnLock\<close> sends its unlock request to descriptor 0, which is
  not the lock file, and returns the \<^verbatim>\<open>EBADF\<close> the system answers.
\<close>

theorem UnLock_fresh_lock_bad_descriptor:
  "UnLock (demo_sys (Inr True) (Inr (File 3)) 0)
     \<lparr>lck = New ''/run/lock/app.lck'', world = \<lparr>now = 0, fds = [1, 2]\<rparr>, trace = []\<rparr> =
   (Some (OSError (Errno 9)),
    \<lparr>lck = New ''/run/lock/app.lck'', world = \<lparr>now = 1, fds = [1, 2]\<rparr>,
     trace = [Sys_FcntlFlock 0 F_SETLK unlck_ft False]\<rparr>)"
  by (simp add: demo_defs package_defs)

section \<open>The directory check\<close>

text \<open>
  C5. When \<^verbatim>\<open>os.Stat\<close> finds the parent of the lock path and it is not a directory,
  \<^verbatim>\<open>createLockDir\<close>, \<^verbatim>\<open>TryLock\<close> and \<^verbatim>\<open>LockContext\<close> all return the error
  \<^verbatim>\<open>already exists and is not directory:\<close> followed by the parent path. The only system
  call made is that \<^verbatim>\<open>os.Stat\<close>: no \<^verbatim>\<open>os.MkdirAll\<close>, no attempt on the file, no wait.
\<close>

theorem not_a_directory_fails_at_once:
  assumes "os_Stat sys (filepath_Dir sys (path (lck s))) (world s) = (Inr False, w)"
  shows "createLockDir sys (path (lck s)) s =
           (Some (ErrorsNew (''already exists and is not directory: '' @ filepath_Dir sys (path (lck s)))),
            s\<lparr>world := w, trace := trace s @ [Call_createLockDir (path (lck s)),
                 Sys_Stat (filepath_Dir sys (path (lck s)))]\<rparr>) \<and>
         TryLock sys s =
           (Some (ErrorsNew (''already exists and is not directory: '' @ filepath_Dir sys (path (lck s)))),
            s\<lparr>world := w, trace := trace s @ [Call_TryLock, Call_createLockDir (path (lck s)),
                 Sys_Stat (filepath_Dir sys (path (lck s)))]\<rparr>) \<and>
         LockContext sys ctx retryDelay n s =
           Some (Some (ErrorsNew (''already exists and is not directory: '' @ filepath_Dir sys (path (lck s)))),
            s\<lparr>world := w, trace := trace s @ [Call_createLockDir (path (lck s)),
                 Sys_Stat (filepath_Dir sys (path (lck s)))]\<rparr>)"
  using assms
  by (simp add: createLockDir_def TryLock_def LockContext_def do_Stat_def emit_def Let_def)

theorem not_a_directory_fails_at_once_witness:
  "createLockDir (demo_sys (Inr False) (Inr (File 3)) 0) ''/run/lock/app.lck''
     (demo_start ''/run/lock/app.lck'' [0, 1, 2]) =
   (Some (ErrorsNew ''already exists and is not directory: /run/lock''),
    \<lparr>lck = New ''/run/lock/app.lck'', world = \<lparr>now = 1, fds = [0, 1, 2]\<rparr>,
     trace = [Call_createLockDir ''/run/lock/app.lck'', Sys_Stat ''/run/lock'']\<rparr>) \<and>
   TryLock (demo_sys (Inr False) (Inr (File 3)) 0) (demo_start ''/run/lock/app.lck'' [0, 1, 2]) =
   (Some (ErrorsNew ''already exists and is not directory: /run/lock''),
    \<lparr>lck = New ''/run/lock/app.lck'', world = \<lparr>now = 1, fds = [0, 1, 2]\<rparr>,
     trace = [Call_TryLock, Call_createLockDir ''/run/lock/app.lck'', Sys_Stat ''/run/lock'']\<rparr>) \<and>
   LockContext (demo_sys (Inr False) (Inr (File 3)) 0) (demo_ctx None) 5 7
     (demo_start ''/run/lock/app.lck'' [0, 1, 2]) =
   Some (Some (ErrorsNew ''already exists and is not directory: /run/lock''),
    \<lparr>lck = New ''/run/lock/app.lck'', world = \<lparr>now = 1, fds = [0, 1, 2]\<rparr>,
     trace = [Call_createLockDir ''/run/lock/app.lck'', Sys_Stat ''/run/lock'']\<rparr>)"
proof -
  let ?sys = "demo_sys (Inr False) (Inr (File 3)) 0"
  let ?s = "demo_start ''/run/lock/app.lck'' [0, 1, 2]"
  have h: "os_Stat ?sys (filepath_Dir ?sys (path (lck ?s))) (world ?s) =
           (Inr False, \<lparr>now = 1, fds = [0, 1, 2]\<rparr>)"
    by (simp add: demo_defs)
  from not_a_directory_fails_at_once [OF h, of "demo_ctx None" 5 7] show ?thesis
    by (simp add: demo_defs)
qed

lemma calls_append [simp]:
  "calls_createLockDir (tr @ evs) = calls_createLockDir tr + calls_createLockDir evs"
  "calls_TryLock (tr @ evs) = calls_TryLock tr + calls_TryLock evs"
  by (simp_all add: calls_createLockDir_def calls_TryLock_def)

lemma calls_Nil [simp]: "calls_createLockDir [] = 0" "calls_TryLock [] = 0"
  by (simp_all add: calls_createLockDir_def calls_TryLock_def)

lemma calls_Cons [simp]:
  "calls_createLockDir (e # tr) = (if is_createLockDir_call e then 1 else 0) + calls_createLockDir tr"
  "calls_TryLock (e # tr) = (if e = Call_TryLock then 1 else 0) + calls_TryLock tr"
  by (simp_all add: calls_createLockDir_def calls_TryLock_def)










section \<open>The retry loop\<close>

lemma try_loop_skip:
  "iteration_start ctx fn d k s = Some sk \<Longrightarrow>
   try_loop ctx fn d (k + m) s = try_loop ctx fn d m sk"
  by (induction k arbitrary: s) (auto split: prod.splits option.splits bool.splits)

lemma try_loop_at_iteration:
  assumes "iteration_start ctx fn d k s = Some sk" and "k < n"
  shows "try_loop ctx fn d n s = try_loop ctx fn d (Suc (n - Suc k)) sk"
proof -
  from assms(2) have n: "k + Suc (n - Suc k) = n" by simp
  from try_loop_skip [OF assms(1), of "Suc (n - Suc k)"] show ?thesis by (simp only: n)
qed

lemma TryLock_no_ctx_error:
  assumes "TryLock sys s = (Some e, s')"
  shows "e \<noteq> ContextError c"
proof -
  obtain r1 s1 where c: "createLockDir sys (path (lck s)) (emit Call_TryLock s) = (r1, s1)"
    by (cases "createLockDir sys (path (lck s)) (emit Call_TryLock s)")
  show ?thesis
  proof (cases r1)
    case (Some e1)
    with assms c have "e = e1" by (simp add: TryLock_def)
    with c Some createLockDir_no_ctx_error show ?thesis by blast
  next
    case None
    with assms c have "lock sys False s1 = (Some e, s')" by (simp add: TryLock_def)
    from lock_error_is_OSError [OF this] show ?thesis by auto
  qed
qed

lemma ctx_events_append [simp]: "ctx_events (tr @ evs) = ctx_events tr @ ctx_events evs"
  by (simp add: ctx_events_def)

lemma ctx_events_Nil [simp]: "ctx_events [] = []"
  by (simp add: ctx_events_def)

lemma ctx_events_Cons [simp]:
  "ctx_events (e # tr) = (if is_ctx_event e then e # ctx_events tr else ctx_events tr)"
  by (simp add: ctx_events_def)

lemma createLockDir_ctx_events:
  "createLockDir sys p s = (r, s') \<Longrightarrow> ctx_events (trace s') = ctx_events (trace s)"
  by (auto simp: createLockDir_def do_Stat_def do_MkdirAll_def Let_def
           split: prod.splits sum.splits if_splits)

lemma lock_ctx_events:
  "lock sys b s = (r, s') \<Longrightarrow> ctx_events (trace s') = ctx_events (trace s)"
  by (auto simp: lock_unfold split: prod.splits option.splits sum.splits)

lemma TryLock_ctx_events:
  assumes "TryLock sys s = (r, s')"
  shows "ctx_events (trace s') = ctx_events (trace s)"
proof -
  obtain r1 s1 where c: "createLockDir sys (path (lck s)) (emit Call_TryLock s) = (r1, s1)"
    by (cases "createLockDir sys (path (lck s)) (emit Call_TryLock s)")
  note cc = createLockDir_ctx_events [OF c]
  show ?thesis
  proof (cases r1)
    case (Some e)
    with assms c cc show ?thesis by (auto simp: TryLock_def)
  next
    case None
    with assms c have "lock sys False s1 = (r, s')" by (simp add: TryLock_def)
    from lock_ctx_events [OF this] cc show ?thesis by simp
  qed
qed

lemma iteration_start_ctx_events:
  "iteration_start ctx (TryLock sys) d k s = Some sk \<Longrightarrow>
   ctx_events (trace sk) = ctx_events (trace s) @ replicate k (Select_wait d False)"
proof (induction k arbitrary: s)
  case 0
  then show ?case by simp
next
  case (Suc k)
  obtain r1 s1 where t: "TryLock sys s = (r1, s1)" by (cases "TryLock sys s")
  note tc = TryLock_ctx_events [OF t]
  from Suc.prems t obtain e where e: "r1 = Some e" by (cases r1) auto
  obtain b s2 where w: "select_wait ctx d s1 = (b, s2)" by (cases "select_wait ctx d s1")
  note wt = select_wait_trace [OF w]
  from Suc.prems t e w have b: "b = False" by (cases b) auto
  with Suc.prems t e w have "iteration_start ctx (TryLock sys) d k s2 = Some sk" by simp
  from Suc.IH [OF this] wt tc b show ?case by (simp add: replicate_append_same)
qed

text \<open>
  C1. The claim asks for at least one attempt when the context is already done at entry.
  Here the parent directory exists, the lock is free and the deadline of the context has
  passed (\<^verbatim>\<open>context.WithTimeout(context.Background(), 0)\<close>): \<^verbatim>\<open>LockContext\<close> returns
  \<^verbatim>\<open>context.DeadlineExceeded\<close> after the directory check and one \<^verbatim>\<open>ctx.Err()\<close>. It
  has called neither \<^verbatim>\<open>TryLock\<close> nor \<^verbatim>\<open>lock\<close>, opened no file and sent no lock
  request, whatever the number of iterations allowed.
\<close>

theorem expired_context_returns_without_attempt:
  "LockContext (demo_sys (Inr True) (Inr (File 3)) 0) (demo_ctx (Some 0)) 5 n
     (demo_start ''/run/lock/app.lck'' [0, 1, 2]) =
   Some (Some (ContextError DeadlineExceeded),
         \<lparr>lck = New ''/run/lock/app.lck'',
          world = \<lparr>now = 1, fds = [0, 1, 2]\<rparr>,
          trace = [Call_createLockDir ''/run/lock/app.lck'', Sys_Stat ''/run/lock'',
                   Ctx_Err (Some DeadlineExceeded)]\<rparr>)"
  by (simp add: demo_defs package_defs)

text \<open>
  C6. Let the directory check pass, the context be live at entry, and iteration \<open>k\<close> of
  the loop be reached. When the attempt of that iteration fails with \<open>e\<close> and the
  \<^verbatim>\<open>select\<close> after it takes \<^verbatim>\<open>ctx.Done()\<close>, \<^verbatim>\<open>LockContext\<close> returns what
  \<^verbatim>\<open>ctx.Err()\<close> answers then, and that is never the error \<open>e\<close> of the attempt.
\<close>

theorem cancellation_while_waiting:
  assumes "createLockDir sys (path (lck s)) s = (None, s1)"
      and "Err ctx (world s1) = None"
      and "iteration_start ctx (TryLock sys) retryDelay k (emit (Ctx_Err None) s1) = Some sk"
      and "TryLock sys sk = (Some e, sa)"
      and "select_wait ctx retryDelay sa = (True, sb)"
      and "k < n"
  shows "LockContext sys ctx retryDelay n s =
           Some (map_option ContextError (Err ctx (world sb)),
                 emit (Ctx_Err (Err ctx (world sb))) sb) \<and>
         map_option ContextError (Err ctx (world sb)) \<noteq> Some e"
proof -
  from assms(1,2) have "LockContext sys ctx retryDelay n s =
      try_loop ctx (TryLock sys) retryDelay n (emit (Ctx_Err None) s1)"
    by (simp add: LockContext_def lck_try_def ctx_Err_def)
  also from try_loop_at_iteration [OF assms(3,6)] assms(4,5)
  have "\<dots> = Some (ctx_Err ctx sb)" by simp
  finally have r: "LockContext sys ctx retryDelay n s = Some (ctx_Err ctx sb)" .
  from TryLock_no_ctx_error [OF assms(4)]
  have "map_option ContextError (Err ctx (world sb)) \<noteq> Some e" by auto
  with r show ?thesis by (simp add: ctx_Err_def)
qed

theorem cancellation_while_waiting_witness:
  "LockContext (demo_sys (Inr True) (Inr (File 3)) 100) (demo_ctx (Some 12)) 5 5
     (demo_start ''/run/lock/app.lck'' [0, 1, 2]) =
   Some (Some (ContextError DeadlineExceeded),
     \<lparr>lck = \<lparr>path = ''/run/lock/app.lck'', resource = None, fd = 3\<rparr>,
      world = \<lparr>now = 14, fds = [0, 1, 2]\<rparr>,
      trace = [Call_createLockDir ''/run/lock/app.lck'', Sys_Stat ''/run/lock'',
               Ctx_Err None,
               Call_TryLock,
               Call_createLockDir ''/run/lock/app.lck'', Sys_Stat ''/run/lock'',
               Call_lock False,
               Sys_OpenFile ''/run/lock/app.lck'' [O_CREATE, O_RDWR, O_SYNC] 438 (Some (File 3)),
               Sys_FcntlFlock 3 F_SETLK (wrlck_ft 4242) False,
               Sys_Close (File 3),
               Select_wait 5 False,
               Call_TryLock,
               Call_createLockDir ''/run/lock/app.lck'', Sys_Stat ''/run/lock'',
               Call_lock False,
               Sys_OpenFile ''/run/lock/app.lck'' [O_CREATE, O_RDWR, O_SYNC] 438 (Some (File 3)),
               Sys_FcntlFlock 3 F_SETLK (wrlck_ft 4242) False,
               Sys_Close (File 3),
               Select_wait 5 True,
               Ctx_Err (Some DeadlineExceeded)]\<rparr>) \<and>
   fst (TryLock (demo_sys (Inr True) (Inr (File 3)) 100)
          (the (iteration_start (demo_ctx (Some 12)) (TryLock (demo_sys (Inr True) (Inr (File 3)) 100))
                  5 1
                  (emit (Ctx_Err None)
                     (snd (createLockDir (demo_sys (Inr True) (Inr (File 3)) 100)
                             ''/run/lock/app.lck'' (demo_start ''/run/lock/app.lck'' [0, 1, 2]))))))) =
   Some (OSError (Errno 11))"
proof -
  let ?sys = "demo_sys (Inr True) (Inr (File 3)) 100"
  let ?ctx = "demo_ctx (Some 12)"
  let ?s = "demo_start ''/run/lock/app.lck'' [0, 1, 2]"
  let ?s1 = "snd (createLockDir ?sys ''/run/lock/app.lck'' ?s)"
  let ?sk = "the (iteration_start ?ctx (TryLock ?sys) 5 1 (emit (Ctx_Err None) ?s1))"
  let ?sa = "snd (TryLock ?sys ?sk)"
  let ?sb = "snd (select_wait ?ctx 5 ?sa)"
  have h1: "createLockDir ?sys (path (lck ?s)) ?s = (None, ?s1)"
    by (simp add: demo_defs package_defs)
  have h2: "Err ?ctx (world ?s1) = None"
    by (simp add: demo_defs package_defs)
  have h3: "iteration_start ?ctx (TryLock ?sys) 5 1 (emit (Ctx_Err None) ?s1) = Some ?sk"
    by (simp add: demo_defs package_defs)
  have h4: "TryLock ?sys ?sk = (Some (OSError (Errno 11)), ?sa)"
    by (simp add: demo_defs package_defs)
  have h5: "select_wait ?ctx 5 ?sa = (True, ?sb)"
    by (simp add: demo_defs package_defs)
  have h6: "(1::nat) < 5"
    by simp
  from cancellation_while_waiting [OF h1 h2 h3 h4 h5 h6] h4 show ?thesis
    by (simp add: demo_defs package_defs)
qed

text \<open>
  C10. Let the directory check pass, the context be live at entry, and iteration \<open>k\<close> of
  the loop be reached. When the attempt of that iteration succeeds, \<^verbatim>\<open>LockContext\<close>
  returns \<^verbatim>\<open>nil\<close> in the very state the attempt ended in. Over the whole call the context
  was consulted once by \<^verbatim>\<open>ctx.Err()\<close> at entry and once by the \<^verbatim>\<open>select\<close> after each
  of the \<open>k\<close> failed attempts, and not after the successful one.
\<close>

theorem success_returns_without_context_check:
  assumes "createLockDir sys (path (lck s)) s = (None, s1)"
      and "Err ctx (world s1) = None"
      and "iteration_start ctx (TryLock sys) retryDelay k (emit (Ctx_Err None) s1) = Some sk"
      and "TryLock sys sk = (None, s')"
      and "k < n"
  shows "LockContext sys ctx retryDelay n s = Some (None, s') \<and>
         ctx_events (trace s') =
           ctx_events (trace s) @ Ctx_Err None # replicate k (Select_wait retryDelay False)"
proof -
  from assms(1,2) have "LockContext sys ctx retryDelay n s =
      try_loop ctx (TryLock sys) retryDelay n (emit (Ctx_Err None) s1)"
    by (simp add: LockContext_def lck_try_def ctx_Err_def)
  also from try_loop_at_iteration [OF assms(3,5)] assms(4) have "\<dots> = Some (None, s')"
    by simp
  finally have r: "LockContext sys ctx retryDelay n s = Some (None, s')" .
  from iteration_start_ctx_events [OF assms(3)] TryLock_ctx_events [OF assms(4)]
    createLockDir_ctx_events [OF assms(1)]
  have "ctx_events (trace s') =
          ctx_events (trace s) @ Ctx_Err None # replicate k (Select_wait retryDelay False)"
    by simp
  with r show ?thesis by simp
qed

theorem success_returns_without_context_check_witness:
  "LockContext (demo_sys (Inr True) (Inr (File 3)) 6) (demo_ctx (Some 8)) 1 5
     (demo_start ''/run/lock/app.lck'' [0, 1, 2]) =
   Some (None,
     \<lparr>lck = \<lparr>path = ''/run/lock/app.lck'', resource = Some (File 3), fd = 3\<rparr>,
      world = \<lparr>now = 9, fds = [3, 0, 1, 2]\<rparr>,
      trace = [Call_createLockDir ''/run/lock/app.lck'', Sys_Stat ''/run/lock'',
               Ctx_Err None,
               Call_TryLock,
               Call_createLockDir ''/run/lock/app.lck'', Sys_Stat ''/run/lock'',
               Call_lock False,
               Sys_OpenFile ''/run/lock/app.lck'' [O_CREATE, O_RDWR, O_SYNC] 438 (Some (File 3)),
               Sys_FcntlFlock 3 F_SETLK (wrlck_ft 4242) False,
               Sys_Close (File 3),
               Select_wait 1 False,
               Call_TryLock,
               Call_createLockDir ''/run/lock/app.lck'', Sys_Stat ''/run/lock'',
               Call_lock False,
               Sys_OpenFile ''/run/lock/app.lck'' [O_CREATE, O_RDWR, O_SYNC] 438 (Some (File 3)),
               Sys_FcntlFlock 3 F_SETLK (wrlck_ft 4242) True]\<rparr>) \<and>
   Err (demo_ctx (Some 8)) \<lparr>now = 9, fds = [3, 0, 1, 2]\<rparr> = Some DeadlineExceeded"
proof -
  let ?sys = "demo_sys (Inr True) (Inr (File 3)) 6"
  let ?ctx = "demo_ctx (Some 8)"
  let ?s = "demo_start ''/run/lock/app.lck'' [0, 1, 2]"
  let ?s1 = "snd (createLockDir ?sys ''/run/lock/app.lck'' ?s)"
  let ?sk = "the (iteration_start ?ctx (TryLock ?sys) 1 1 (emit (Ctx_Err None) ?s1))"
  let ?s' = "snd (TryLock ?sys ?sk)"
  have h1: "createLockDir ?sys (path (lck ?s)) ?s = (None, ?s1)"
    by (simp add: demo_defs package_defs)
  have h2: "Err ?ctx (world ?s1) = None"
    by (simp add: demo_defs package_defs)
  have h3: "iteration_start ?ctx (TryLock ?sys) 1 1 (emit (Ctx_Err None) ?s1) = Some ?sk"
    by (simp add: demo_defs package_defs)
  have h4: "TryLock ?sys ?sk = (None, ?s')"
    by (simp add: demo_defs package_defs)
  have h5: "(1::nat) < 5"
    by simp
  from success_returns_without_context_check [OF h1 h2 h3 h4 h5] show ?thesis
    by (simp add: demo_defs package_defs)
qed

end
